theory Spec2Isabelle
  imports Main
begin

section \<open>SCASO: a shallow embedding of \<^verbatim>\<open>src/scaso.py\<close>\<close>

text \<open>
  The functions of \<^verbatim>\<open>scaso.py\<close> are translated one by one. Python strings and byte
  strings are \<^typ>\<open>string\<close>; a character stands for one code point below 256. Python's
  unbounded \<^verbatim>\<open>int\<close> is \<^typ>\<open>int\<close>. Every exception the source can raise from the data
  it is given is a branch of the model.
\<close>

subsection \<open>Python's string built-ins\<close>

text \<open>
  \<^verbatim>\<open>str.strip()\<close> removes the characters for which \<^verbatim>\<open>str.isspace()\<close> holds: below
  256 these are TAB to CR, FS to US, the blank, NEL and the no-break space.
\<close>

definition str_isspace :: "char \<Rightarrow> bool" where
  "str_isspace c =
     (let n = (of_char c :: nat)
      in (9 \<le> n \<and> n \<le> 13) \<or> (28 \<le> n \<and> n \<le> 32) \<or> n = 133 \<or> n = 160)"

definition strip :: "string \<Rightarrow> string" where
  "strip s = rev (dropWhile str_isspace (rev (dropWhile str_isspace s)))"

text \<open>\<^verbatim>\<open>s.split(sep)\<close> for a separator of one character: never the empty list.\<close>

fun split_on :: "char \<Rightarrow> string \<Rightarrow> string list" where
  "split_on sep [] = [[]]"
| "split_on sep (c # cs) =
     (if c = sep then [] # split_on sep cs
      else (case split_on sep cs of
              [] \<Rightarrow> [[c]]
            | p # ps \<Rightarrow> (c # p) # ps))"

text \<open>
  \<^verbatim>\<open>int(s)\<close> on a string, base ten. The interpreter skips white space on both sides
  (TAB to CR and the blank; NEL and the no-break space are turned into blanks first, FS to
  US are not), reads an optional sign and then digits, where one underscore may stand
  between two digits. Anything else raises \<^verbatim>\<open>ValueError\<close>, here \<open>None\<close>. Since Python
  3.11 (and the security releases of 3.7 to 3.10) a number of more than
  \<^verbatim>\<open>sys.get_int_max_str_digits()\<close> digits raises \<^verbatim>\<open>ValueError\<close> too; that setting is the
  parameter \<open>lim\<close>, with 0 for no limit, as in the interpreter.
\<close>

definition int_isspace :: "char \<Rightarrow> bool" where
  "int_isspace c =
     (let n = (of_char c :: nat)
      in (9 \<le> n \<and> n \<le> 13) \<or> n = 32 \<or> n = 133 \<or> n = 160)"

definition is_digit :: "char \<Rightarrow> bool" where
  "is_digit c = (let n = (of_char c :: nat) in 48 \<le> n \<and> n \<le> 57)"

definition digit_val :: "char \<Rightarrow> nat" where
  "digit_val c = of_char c - 48"

fun scan_digits :: "bool \<Rightarrow> string \<Rightarrow> nat list option" where
  "scan_digits prev [] = (if prev then Some [] else None)"
| "scan_digits prev (c # cs) =
     (if is_digit c then map_option ((#) (digit_val c)) (scan_digits True cs)
      else if c = CHR ''_'' \<and> prev then scan_digits False cs
      else None)"

definition digits_value :: "nat list \<Rightarrow> nat" where
  "digits_value ds = fold (\<lambda>d acc. 10 * acc + d) ds 0"

definition int_strip :: "string \<Rightarrow> string" where
  "int_strip s = rev (dropWhile int_isspace (rev (dropWhile int_isspace s)))"

definition split_sign :: "string \<Rightarrow> int \<times> string" where
  "split_sign t =
     (case t of
        [] \<Rightarrow> (1, [])
      | c # r \<Rightarrow>
          if c = CHR ''-'' then (- 1, r)
          else if c = CHR ''+'' then (1, r)
          else (1, t))"

definition py_int_str :: "nat \<Rightarrow> string \<Rightarrow> int option" where
  "py_int_str lim s =
     (let (sign, body) = split_sign (int_strip s)
      in case scan_digits False body of
           None \<Rightarrow> None
         | Some ds \<Rightarrow>
             if 640 < length ds \<and> 0 < lim \<and> lim < length ds then None
             else Some (sign * int (digits_value ds)))"

subsection \<open>\<^verbatim>\<open>parse_page_range\<close>\<close>

text \<open>\<^verbatim>\<open>tuple(range(total_pages))\<close>: empty when \<open>total_pages \<le> 0\<close>.\<close>

definition all_pages :: "int \<Rightarrow> int list" where
  "all_pages total_pages = [0..total_pages - 1]"

text \<open>\<^verbatim>\<open>part.split("-", 1)\<close> on a part that holds a dash.\<close>

definition split_dash :: "string \<Rightarrow> string \<times> string" where
  "split_dash part =
     (takeWhile (\<lambda>c. c \<noteq> CHR ''-'') part, tl (dropWhile (\<lambda>c. c \<noteq> CHR ''-'') part))"

text \<open>
  The body of the loop over the parts: what one part adds to the set \<open>wanted\<close>. A
  \<^verbatim>\<open>ValueError\<close> of \<^verbatim>\<open>int\<close> is caught by the source and the part is passed over.
\<close>

definition add_part :: "nat \<Rightarrow> int \<Rightarrow> string \<Rightarrow> int set \<Rightarrow> int set" where
  "add_part lim total_pages part wanted =
     (if CHR ''-'' \<in> set part then
        (let (left, right) = split_dash part
         in case py_int_str lim left of
              None \<Rightarrow> wanted
            | Some l \<Rightarrow>
                (case py_int_str lim right of
                   None \<Rightarrow> wanted
                 | Some r \<Rightarrow>
                     (let start = max 1 l; end = min total_pages r
                      in if start \<le> end
                         then fold (\<lambda>i w. insert (i - 1) w) [start..end] wanted
                         else wanted)))
      else
        (case py_int_str lim part of
           None \<Rightarrow> wanted
         | Some one \<Rightarrow>
             if 1 \<le> one \<and> one \<le> total_pages then insert (one - 1) wanted else wanted))"

definition range_parts :: "string \<Rightarrow> string list" where
  "range_parts spec = map strip (filter (\<lambda>p. strip p \<noteq> []) (split_on CHR '','' spec))"

definition wanted_pages :: "nat \<Rightarrow> string \<Rightarrow> int \<Rightarrow> int set" where
  "wanted_pages lim spec total_pages = fold (add_part lim total_pages) (range_parts spec) {}"

definition parse_page_range :: "nat \<Rightarrow> string option \<Rightarrow> int \<Rightarrow> int list" where
  "parse_page_range lim spec total_pages =
     (case spec of
        None \<Rightarrow> all_pages total_pages
      | Some s \<Rightarrow>
          if s = [] then all_pages total_pages
          else (let indices = sorted_list_of_set (wanted_pages lim s total_pages)
                in if indices \<noteq> [] then indices else all_pages total_pages))"

subsection \<open>Python's number conversions and formatting\<close>

text \<open>\<^verbatim>\<open>str(n)\<close> of an integer, and the format \<^verbatim>\<open>{n:02d}\<close>.\<close>

fun nat_digits :: "nat \<Rightarrow> string" where
  "nat_digits n =
     (if n < 10 then [char_of (48 + n)]
      else nat_digits (n div 10) @ [char_of (48 + n mod 10)])"

definition str_int :: "int \<Rightarrow> string" where
  "str_int i = (if i < 0 then CHR ''-'' # nat_digits (nat (- i)) else nat_digits (nat i))"

definition fmt_02d :: "int \<Rightarrow> string" where
  "fmt_02d i = (let s = str_int i in if length s < 2 then CHR ''0'' # s else s)"

text \<open>
  Formatting an integer raises \<^verbatim>\<open>ValueError\<close> when it has more decimal digits than
  \<^verbatim>\<open>sys.get_int_max_str_digits()\<close>, the same limit as for \<^verbatim>\<open>int\<close> above; the functions
  before give the text when it does not.
\<close>

fun num_digits :: "nat \<Rightarrow> nat" where
  "num_digits n = (if n < 10 then 1 else Suc (num_digits (n div 10)))"

definition int_str_exceeds :: "nat \<Rightarrow> int \<Rightarrow> bool" where
  "int_str_exceeds lim i =
     (let n = num_digits (nat \<bar>i\<bar>) in 640 < n \<and> 0 < lim \<and> lim < n)"

text \<open>
  A float is \<open>m * 2 ^ e\<close>, an infinity or a NaN. \<^verbatim>\<open>int(x)\<close> truncates towards zero and
  raises on the last two.
\<close>

datatype pyfloat = Finite int int | PosInf | NegInf | NaN


subsection \<open>Values of \<^verbatim>\<open>json.loads\<close>\<close>

text \<open>
  What \<^verbatim>\<open>json.loads\<close> can return. An object is a \<^verbatim>\<open>dict\<close>: the list holds each key
  once.
\<close>

datatype json =
    JNull
  | JBool bool
  | JInt int
  | JFloat pyfloat
  | JString string
  | JArray "json list"
  | JObject "(string \<times> json) list"





subsection \<open>Exceptions\<close>

text \<open>
  The \<^verbatim>\<open>RuntimeError\<close>s, told apart by where the source raises them; \<open>OtherRuntime\<close>
  is one raised by a library, such as the \<^verbatim>\<open>RecursionError\<close> of \<^verbatim>\<open>json.loads\<close>. The other
  exceptions are the ones the libraries raise and the source does not turn into a
  \<^verbatim>\<open>RuntimeError\<close>; \<open>OtherError\<close> stands for any further one.
\<close>

datatype failure =
    NavigationFailed
  | SpaceGetFailed
  | SpaceHttpStatus int
  | SpaceJsonParse
  | PagesExtract
  | OtherRuntime

datatype exn =
    RuntimeError failure
  | ValueError
  | OverflowError
  | OSError
  | JSONDecodeError
  | OtherError

subsection \<open>\<^verbatim>\<open>derive_base_and_pages\<close>\<close>





subsection \<open>The unwrap step of \<^verbatim>\<open>fetch_space\<close>\<close>

text \<open>
  \<^verbatim>\<open>re.sub(r"^[^(]+\(|\);?$", "", text)\<close>, written out. The first alternative can match
  at position 0 only: one or more characters other than the opening parenthesis, then
  that parenthesis. The second matches a closing parenthesis, a semicolon if there is one,
  and then the end of the text, which \<^verbatim>\<open>$\<close> also sees before a final newline.
  \<^verbatim>\<open>re.sub\<close> scans from the left, removes each match and goes on behind it.
\<close>

definition at_end :: "string \<Rightarrow> bool" where
  "at_end r = (r = [] \<or> r = [CHR 0x0A])"

definition match_open :: "string \<Rightarrow> string option" where
  "match_open s =
     (let pre = takeWhile (\<lambda>c. c \<noteq> CHR ''('') s;
          rest = dropWhile (\<lambda>c. c \<noteq> CHR ''('') s
      in if pre \<noteq> [] \<and> rest \<noteq> [] then Some (tl rest) else None)"

definition match_close :: "string \<Rightarrow> string option" where
  "match_close s =
     (case s of
        [] \<Rightarrow> None
      | c # r \<Rightarrow>
          if c \<noteq> CHR '')'' then None
          else if r \<noteq> [] \<and> hd r = CHR '';'' \<and> at_end (tl r) then Some (tl r)
          else if at_end r then Some r
          else None)"

function sub_close :: "string \<Rightarrow> string" where
  "sub_close [] = []"
| "sub_close (c # cs) =
     (case match_close (c # cs) of
        Some rest \<Rightarrow> sub_close rest
      | None \<Rightarrow> c # sub_close cs)"
  by pat_completeness auto
termination
  by (relation "measure length")
    (auto simp: match_close_def split: if_splits)

definition jsonp_unwrap :: "string \<Rightarrow> string" where
  "jsonp_unwrap text =
     (case match_open text of
        Some rest \<Rightarrow> sub_close rest
      | None \<Rightarrow> sub_close text)"

subsection \<open>Asset addresses and file names\<close>

text \<open>\<^verbatim>\<open>f"{base}score_{idx}.svg"\<close>, the address of a page in \<^verbatim>\<open>download_assets\<close>.\<close>

definition page_url :: "string \<Rightarrow> int \<Rightarrow> string" where
  "page_url base idx = base @ ''score_'' @ str_int idx @ ''.svg''"

text \<open>
  A \<^verbatim>\<open>pathlib.Path\<close> is kept as the string it was built from; \<^verbatim>\<open>out_dir / name\<close> puts
  a separator between the two and \<^verbatim>\<open>path.name\<close> is what follows the last separator.
\<close>

definition path_join :: "string \<Rightarrow> string \<Rightarrow> string" where
  "path_join dir name = dir @ ''/'' @ name"

definition path_name :: "string \<Rightarrow> string" where
  "path_name p = rev (takeWhile (\<lambda>c. c \<noteq> CHR ''/'') (rev p))"

text \<open>\<^verbatim>\<open>out_dir / f"{song_stem} - page - {idx + 1:02d}.svg"\<close>.\<close>

definition page_file :: "string \<Rightarrow> string \<Rightarrow> int \<Rightarrow> string" where
  "page_file out_dir song_stem idx =
     path_join out_dir (song_stem @ '' - page - '' @ fmt_02d (idx + 1) @ ''.svg'')"

text \<open>The two f-strings above format \<^verbatim>\<open>idx\<close> and \<^verbatim>\<open>idx + 1\<close> without raising.\<close>

definition index_formats :: "nat \<Rightarrow> int \<Rightarrow> bool" where
  "index_formats lim idx = (\<not> int_str_exceeds lim idx \<and> \<not> int_str_exceeds lim (idx + 1))"

subsection \<open>The world the program acts on\<close>

text \<open>
  Each \<^verbatim>\<open>safe_print\<close> call is a message that carries the values the source
  interpolates into its text.
\<close>

datatype message =
    MOpening string
  | MError exn
  | MNoManifest
  | MManifest string
  | MTitle string
  | MBase string
  | MTotalPages int
  | MOutputDir string
  | MTrimming
  | MDownloading nat
  | MSkipExisting string
  | MSavedPage string
  | MFailedPage int
  | MSkippingSvg
  | MSavedMxl string
  | MMxlUnavailable
  | MSavedMidi string
  | MMidiUnavailable
  | MNoSvgs
  | MCombineDisabled
  | MUnknownEngine string
  | MDepsMissing
  | MConvertFailed string
  | MPdfSaved string
  | MPdfSkipped
  | MSummary nat "string option" "string option" string

text \<open>
  The state: the files by path, the addresses of the GET requests issued so far, the
  sleeps in milliseconds, and the printed messages, each in order. Calls to
  \<^verbatim>\<open>logging\<close> and \<^verbatim>\<open>notify_user\<close> leave it unchanged. The file system never refuses
  a write, and \<^verbatim>\<open>mkdir\<close> changes nothing, as directories are not files.
\<close>

record world =
  files :: "string \<rightharpoonup> string"
  requests :: "string list"
  slept :: "int list"
  printed :: "message list"

datatype http_result = RequestException | Response int string

text \<open>
  What converting one SVG adds to the PDF writer: the pages appended, and whether an
  exception ended the conversion (after the pages appended so far).
\<close>

datatype conversion = Converted "string list" | ConversionFailed "string list"

text \<open>
  The collaborators outside the file: \<open>net n u\<close> is the answer of the network to the
  request number \<open>n\<close> of the run, for address \<open>u\<close>; \<open>json_loads\<close> is \<^verbatim>\<open>json.loads\<close>,
  \<open>None\<close> for \<^verbatim>\<open>JSONDecodeError\<close>; \<open>agent\<close> is \<^verbatim>\<open>capture_space_jsonp_and_title\<close>,
  which drives a browser; \<open>sanitize\<close> is \<^verbatim>\<open>sanitize_filename\<close>; \<open>importable\<close> tells
  whether \<^verbatim>\<open>cairosvg\<close> and \<^verbatim>\<open>pypdf\<close> can be imported; \<open>svg_pages\<close> is the conversion of
  one SVG by these libraries and \<open>pdf_bytes\<close> what \<^verbatim>\<open>PdfWriter.write\<close> writes;
  \<open>max_str_digits\<close> is the interpreter's limit on \<^verbatim>\<open>int\<close>.
\<close>

record env =
  net :: "nat \<Rightarrow> string \<Rightarrow> http_result"
  json_loads :: "string \<Rightarrow> json option"
  agent :: "string \<Rightarrow> bool \<Rightarrow> int \<Rightarrow> exn + (string option \<times> string)"
  sanitize :: "string \<Rightarrow> string"
  importable :: bool
  svg_pages :: "string \<Rightarrow> conversion"
  pdf_bytes :: "string list \<Rightarrow> string"
  max_str_digits :: nat

text \<open>The fields of \<^verbatim>\<open>Options\<close>, each with the prefix \<open>opt_\<close>.\<close>

record options =
  opt_url :: string
  opt_output_dir :: "string option"
  opt_no_pdf :: bool
  opt_pdf_engine :: string
  opt_formats :: "string list"
  opt_page_range :: "string option"
  opt_retries :: int
  opt_throttle_ms :: int
  opt_headful :: bool

definition USER_AGENT :: string where
  "USER_AGENT =
     ''Mozilla/5.0 (Windows NT 10.0; Win64; x64) '' @
     ''AppleWebKit/537.36 (KHTML, like Gecko) '' @
     ''Chrome/120.0.0.0 Safari/537.36''"


definition safe_print :: "message \<Rightarrow> world \<Rightarrow> world" where
  "safe_print m w = w\<lparr>printed := printed w @ [m]\<rparr>"

text \<open>\<^verbatim>\<open>time.sleep\<close>, in milliseconds: a negative duration raises \<^verbatim>\<open>ValueError\<close>.\<close>

definition py_sleep :: "int \<Rightarrow> world \<Rightarrow> (exn + unit) \<times> world" where
  "py_sleep ms w =
     (if ms < 0 then (Inl ValueError, w) else (Inr (), w\<lparr>slept := slept w @ [ms]\<rparr>))"

text \<open>\<^verbatim>\<open>requests.get\<close>: the request is issued and the network answers.\<close>

definition requests_get :: "env \<Rightarrow> string \<Rightarrow> world \<Rightarrow> http_result \<times> world" where
  "requests_get e u w = (net e (length (requests w)) u, w\<lparr>requests := requests w @ [u]\<rparr>)"

definition file_nonempty :: "world \<Rightarrow> string \<Rightarrow> bool" where
  "file_nonempty w p = (case files w p of None \<Rightarrow> False | Some content \<Rightarrow> content \<noteq> [])"

definition write_file :: "string \<Rightarrow> string \<Rightarrow> world \<Rightarrow> world" where
  "write_file p content w = w\<lparr>files := (files w)(p \<mapsto> content)\<rparr>"

subsection \<open>\<^verbatim>\<open>fetch_space\<close>\<close>

definition fetch_space :: "env \<Rightarrow> string \<Rightarrow> world \<Rightarrow> (exn + json) \<times> world" where
  "fetch_space e space_url w =
     (let (resp, w1) = requests_get e space_url w
      in case resp of
           RequestException \<Rightarrow> (Inl (RuntimeError SpaceGetFailed), w1)
         | Response status_code text \<Rightarrow>
             if status_code \<noteq> 200 then (Inl (RuntimeError (SpaceHttpStatus status_code)), w1)
             else (case json_loads e (jsonp_unwrap text) of
                     None \<Rightarrow> (Inl (RuntimeError SpaceJsonParse), w1)
                   | Some data \<Rightarrow> (Inr data, w1)))"

subsection \<open>\<^verbatim>\<open>_http_get\<close>\<close>

text \<open>
  The loop over \<^verbatim>\<open>range(retries + 1)\<close>. The back-off \<^verbatim>\<open>0.75 * (attempt + 1)\<close> seconds is
  \<open>750 * (attempt + 1)\<close> milliseconds. The headers do not change what the model's
  network answers, which may depend on the number of the request in any way.
\<close>


definition backoff :: "int \<Rightarrow> int \<Rightarrow> world \<Rightarrow> (exn + unit) \<times> world" where
  "backoff attempt retries_n w =
     (if attempt < retries_n then py_sleep (750 * (attempt + 1)) w else (Inr (), w))"

fun http_get_loop ::
  "env \<Rightarrow> string \<Rightarrow> int \<Rightarrow> int \<Rightarrow> int list \<Rightarrow> world \<Rightarrow> (exn + string option) \<times> world" where
  "http_get_loop e u retries_n throttle [] w = (Inr None, w)"
| "http_get_loop e u retries_n throttle (attempt # rest) w =
     (let (resp, w1) = requests_get e u w
      in case resp of
           RequestException \<Rightarrow>
             (case backoff attempt retries_n w1 of
                (Inl x, w2) \<Rightarrow> (Inl x, w2)
              | (Inr _, w2) \<Rightarrow> http_get_loop e u retries_n throttle rest w2)
         | Response status_code content \<Rightarrow>
             if status_code = 200 \<and> content \<noteq> [] then
               (if throttle \<noteq> 0 then
                  (case py_sleep throttle w1 of
                     (Inl x, w2) \<Rightarrow> (Inl x, w2)
                   | (Inr _, w2) \<Rightarrow> (Inr (Some content), w2))
                else (Inr (Some content), w1))
             else
               (case backoff attempt retries_n w1 of
                  (Inl x, w2) \<Rightarrow> (Inl x, w2)
                | (Inr _, w2) \<Rightarrow> http_get_loop e u retries_n throttle rest w2))"

definition http_get ::
  "env \<Rightarrow> string \<Rightarrow> (string \<times> string) list \<Rightarrow> int \<Rightarrow> int \<Rightarrow> world
   \<Rightarrow> (exn + string option) \<times> world" where
  "http_get e u headers retries_n throttle w =
     http_get_loop e u retries_n throttle [0..retries_n] w"

subsection \<open>\<^verbatim>\<open>download_assets\<close>\<close>

text \<open>
  The loop over \<^verbatim>\<open>page_indices\<close>, with \<^verbatim>\<open>svg_paths_list\<close> as accumulator. \<^verbatim>\<open>if data\<close>
  holds for bytes that are not empty.
\<close>

fun download_pages ::
  "env \<Rightarrow> options \<Rightarrow> string \<Rightarrow> string \<Rightarrow> string \<Rightarrow> int list \<Rightarrow> string list \<Rightarrow> world
   \<Rightarrow> (exn + string list) \<times> world" where
  "download_pages e options base out_dir song_stem [] svg_paths_list w = (Inr svg_paths_list, w)"
| "download_pages e options base out_dir song_stem (idx # rest) svg_paths_list w =
     (let out_file = page_file out_dir song_stem idx
      in if file_nonempty w out_file then
           download_pages e options base out_dir song_stem rest (svg_paths_list @ [out_file])
             (safe_print (MSkipExisting (path_name out_file)) w)
         else
           (case http_get e (page_url base idx) [(''User-Agent'', USER_AGENT), (''Referer'', base)]
                   (opt_retries options) (opt_throttle_ms options) w of
              (Inl x, w1) \<Rightarrow> (Inl x, w1)
            | (Inr data, w1) \<Rightarrow>
                if data \<noteq> None \<and> data \<noteq> Some [] then
                  download_pages e options base out_dir song_stem rest (svg_paths_list @ [out_file])
                    (safe_print (MSavedPage (path_name out_file)) (write_file out_file (the data) w1))
                else
                  download_pages e options base out_dir song_stem rest svg_paths_list
                    (safe_print (MFailedPage (idx + 1)) w1)))"

text \<open>
  The two blocks for MusicXML and MIDI differ in the address, the file and the messages
  only.
\<close>

definition download_aux ::
  "env \<Rightarrow> options \<Rightarrow> string \<Rightarrow> string \<Rightarrow> string \<Rightarrow> (string \<Rightarrow> message) \<Rightarrow> message \<Rightarrow> world
   \<Rightarrow> (exn + string option) \<times> world" where
  "download_aux e options base aux_url aux_out saved unavailable w =
     (case http_get e aux_url [(''User-Agent'', USER_AGENT), (''Referer'', base)]
             (opt_retries options) (opt_throttle_ms options) w of
        (Inl x, w1) \<Rightarrow> (Inl x, w1)
      | (Inr data, w1) \<Rightarrow>
          if data \<noteq> None \<and> data \<noteq> Some [] then
            (Inr (Some aux_out), safe_print (saved (path_name aux_out)) (write_file aux_out (the data) w1))
          else (Inr None, safe_print unavailable w1))"

definition download_assets ::
  "env \<Rightarrow> options \<Rightarrow> string \<Rightarrow> string \<Rightarrow> int \<Rightarrow> int list \<Rightarrow> string \<Rightarrow> world
   \<Rightarrow> (exn + (string list \<times> string option \<times> string option)) \<times> world" where
  "download_assets e options base out_dir total_pages page_indices song_stem w =
     (let want_svg = (''svg'' \<in> set (opt_formats options));
          want_mxl = (''mxl'' \<in> set (opt_formats options));
          want_mid = (''mid'' \<in> set (opt_formats options) \<or> ''midi'' \<in> set (opt_formats options))
      in case (if want_svg \<and> total_pages > 0
               then download_pages e options base out_dir song_stem page_indices []
                      (safe_print (MDownloading (length page_indices)) w)
               else (Inr [], safe_print MSkippingSvg w)) of
           (Inl x, w1) \<Rightarrow> (Inl x, w1)
         | (Inr svg_paths, w1) \<Rightarrow>
             (case (if want_mxl
                    then download_aux e options base (base @ ''score.mxl'')
                           (path_join out_dir (song_stem @ ''.mxl'')) MSavedMxl MMxlUnavailable w1
                    else (Inr None, w1)) of
                (Inl x, w2) \<Rightarrow> (Inl x, w2)
              | (Inr mxl_path, w2) \<Rightarrow>
                  (case (if want_mid
                         then download_aux e options base (base @ ''score.mid'')
                                (path_join out_dir (song_stem @ ''.mid'')) MSavedMidi MMidiUnavailable w2
                         else (Inr None, w2)) of
                     (Inl x, w3) \<Rightarrow> (Inl x, w3)
                   | (Inr mid_path, w3) \<Rightarrow> (Inr (svg_paths, mxl_path, mid_path), w3))))"

subsection \<open>\<^verbatim>\<open>combine_svgs_to_pdf\<close>\<close>

text \<open>
  The loop over the SVG files, with the pages of the writer as accumulator. Reading a
  file that does not exist raises inside the \<^verbatim>\<open>try\<close>, like a failed conversion.
\<close>

fun combine_pages :: "env \<Rightarrow> string list \<Rightarrow> string list \<Rightarrow> world \<Rightarrow> string list \<times> world" where
  "combine_pages e [] writer w = (writer, w)"
| "combine_pages e (svg_file # rest) writer w =
     (case files w svg_file of
        None \<Rightarrow> combine_pages e rest writer (safe_print (MConvertFailed (path_name svg_file)) w)
      | Some svg_bytes \<Rightarrow>
          (case svg_pages e svg_bytes of
             Converted pages \<Rightarrow> combine_pages e rest (writer @ pages) w
           | ConversionFailed pages \<Rightarrow>
               combine_pages e rest (writer @ pages)
                 (safe_print (MConvertFailed (path_name svg_file)) w)))"

definition combine_svgs_to_pdf ::
  "env \<Rightarrow> string list \<Rightarrow> string \<Rightarrow> string \<Rightarrow> world \<Rightarrow> (exn + bool) \<times> world" where
  "combine_svgs_to_pdf e svg_paths pdf_path engine w =
     (if svg_paths = [] then (Inr False, safe_print MNoSvgs w)
      else if engine = ''none'' then (Inr False, safe_print MCombineDisabled w)
      else if engine \<noteq> ''cairosvg'' then (Inr False, safe_print (MUnknownEngine engine) w)
      else if \<not> importable e then (Inr False, safe_print MDepsMissing w)
      else (let (writer, w1) = combine_pages e svg_paths [] w
            in (Inr True,
                safe_print (MPdfSaved (path_name pdf_path))
                  (write_file pdf_path (pdf_bytes e writer) w1))))"

subsection \<open>\<^verbatim>\<open>run\<close>\<close>




subsection \<open>Concrete collaborators for the examples\<close>

text \<open>
  A network that gives the listed answers in turn and fails afterwards, a parser that
  knows two manifests, an agent that knows three pages, and a converter that knows one
  SVG.
\<close>

definition example_env :: "http_result list \<Rightarrow> env" where
  \<open>example_env answers =
     \<lparr>net = (\<lambda>n u. if n < length answers then answers ! n else RequestException),
      json_loads =
        (\<lambda>s. if s = ''{"space":[{"page":0},{"page":1}]}''
             then Some (JObject [(''space'', JArray [JObject [(''page'', JInt 0)],
                                                     JObject [(''page'', JInt 1)]])])
             else if s = ''{}'' then Some (JObject [])
             else None),
      agent =
        (\<lambda>u headless wait_ms.
           if u = ''https://musescore.com/gone'' then Inl (RuntimeError NavigationFailed)
           else if u = ''https://musescore.com/private'' then Inr (None, ''Private'')
           else Inr (Some ''https://x/y/space.jsonp'', ''Song'')),
      sanitize = (\<lambda>s. s),
      importable = True,
      svg_pages = (\<lambda>b. if b = ''<svg/>'' then Converted [''page''] else ConversionFailed []),
      pdf_bytes = concat,
      max_str_digits = 4300\<rparr>\<close>

definition example_options :: options where
  "example_options =
     \<lparr>opt_url = ''https://musescore.com/user/1/scores/42'',
      opt_output_dir = Some ''out'',
      opt_no_pdf = False,
      opt_pdf_engine = ''cairosvg'',
      opt_formats = [''svg''],
      opt_page_range = None,
      opt_retries = 2,
      opt_throttle_ms = 75,
      opt_headful = False\<rparr>"

definition example_world :: "(string \<times> string) list \<Rightarrow> world" where
  "example_world fs = \<lparr>files = map_of fs, requests = [], slept = [], printed = []\<rparr>"

section \<open>Verified properties\<close>

subsection \<open>The page range resolver\<close>




lemma fold_insert_pred:
  "fold (\<lambda>i w. insert (i - 1) w) xs w = w \<union> (\<lambda>i. i - (1::int)) ` set xs"
  by (induction xs arbitrary: w) auto

lemma add_part_union: "add_part lim T p w = w \<union> add_part lim T p {}"
  by (auto simp: add_part_def fold_insert_pred Let_def split: option.splits prod.splits)

lemma add_part_finite: "finite (add_part lim T p {})"
  by (auto simp: add_part_def fold_insert_pred Let_def split: option.splits prod.splits)


lemma fold_add_part:
  "fold (add_part lim T) ps w = w \<union> (\<Union>p \<in> set ps. add_part lim T p {})"
proof (induction ps arbitrary: w)
  case Nil
  then show ?case by simp
next
  case (Cons p ps)
  show ?case
    using add_part_union [of lim T p w] by (auto simp: Cons.IH)
qed

lemma wanted_pages_eq:
  "wanted_pages lim s T = (\<Union>p \<in> set (range_parts s). add_part lim T p {})"
  by (simp add: wanted_pages_def fold_add_part)

lemma wanted_pages_finite: "finite (wanted_pages lim s T)"
  by (simp add: wanted_pages_eq add_part_finite)


















lemma dash_strip: "CHR ''-'' \<in> set (strip tok) \<Longrightarrow> CHR ''-'' \<in> set tok"
  unfolding strip_def by (metis set_rev set_dropWhileD)



text \<open>
  Claim C4. For every total page count \<open>T\<close>, \<^verbatim>\<open>parse_page_range\<close> returns exactly
  \<open>(0, ..., T - 1)\<close> when the spec is \<^verbatim>\<open>None\<close> or empty, and whenever the set of indices
  resolved from the tokens is empty, which is the case when every token contributes
  nothing. In every other case the result is the sorted set of resolved indices itself.
\<close>

theorem parse_page_range_fallback:
  "parse_page_range lim None T = [0..T - 1]
   \<and> parse_page_range lim (Some []) T = [0..T - 1]
   \<and> (wanted_pages lim s T = {} \<longrightarrow> parse_page_range lim (Some s) T = [0..T - 1])
   \<and> ((\<forall>p \<in> set (range_parts s). add_part lim T p {} = {}) \<longrightarrow>
        parse_page_range lim (Some s) T = [0..T - 1])
   \<and> (s \<noteq> [] \<and> wanted_pages lim s T \<noteq> {} \<longrightarrow>
        parse_page_range lim (Some s) T = sorted_list_of_set (wanted_pages lim s T)
        \<and> set (parse_page_range lim (Some s) T) = wanted_pages lim s T)"
proof -
  have e: "(\<forall>p \<in> set (range_parts s). add_part lim T p {} = {}) \<Longrightarrow> wanted_pages lim s T = {}"
    by (simp add: wanted_pages_eq)
  have f: "wanted_pages lim s T = {} \<Longrightarrow> parse_page_range lim (Some s) T = [0..T - 1]"
    by (simp add: parse_page_range_def all_pages_def)
  have g: "s \<noteq> [] \<Longrightarrow> wanted_pages lim s T \<noteq> {} \<Longrightarrow>
        parse_page_range lim (Some s) T = sorted_list_of_set (wanted_pages lim s T)"
    by (simp add: parse_page_range_def wanted_pages_finite Let_def)
  have h: "parse_page_range lim None T = [0..T - 1]" "parse_page_range lim (Some []) T = [0..T - 1]"
    by (simp_all add: parse_page_range_def all_pages_def)
  show ?thesis using e f g h wanted_pages_finite [of lim s T] by auto
qed

theorem parse_page_range_fallback_witness:
  "parse_page_range 4300 (Some ''abc,9,7-8'') 4 = [0, 1, 2, 3]
   \<and> parse_page_range 4300 (Some ''2,9'') 4 = [1]
   \<and> parse_page_range 4300 None 4 = [0, 1, 2, 3]"
proof -
  have a: "\<forall>p \<in> set (range_parts ''abc,9,7-8''). add_part 4300 4 p {} = {}" by code_simp
  have b: "''2,9'' \<noteq> [] \<and> wanted_pages 4300 ''2,9'' 4 \<noteq> {}" by code_simp
  have c: "sorted_list_of_set (wanted_pages 4300 ''2,9'' 4) = [1]" by code_simp
  have d: "[0..(4::int) - 1] = [0, 1, 2, 3]" by code_simp
  show ?thesis
    using a b c d parse_page_range_fallback [of 4300 4 "''abc,9,7-8''"]
      parse_page_range_fallback [of 4300 4 "''2,9''"]
    by simp
qed

subsection \<open>The manifest: unwrap and page count\<close>

lemma takeWhile_neq: "c \<notin> set xs \<Longrightarrow> takeWhile (\<lambda>x. x \<noteq> c) (xs @ c # ys) = xs"
  by (induction xs) auto

lemma dropWhile_neq: "c \<notin> set xs \<Longrightarrow> dropWhile (\<lambda>x. x \<noteq> c) (xs @ c # ys) = c # ys"
  by (induction xs) auto

lemma match_open_ident:
  "ident \<noteq> [] \<Longrightarrow> CHR ''('' \<notin> set ident \<Longrightarrow> match_open (ident @ CHR ''('' # rest) = Some rest"
  by (simp add: match_open_def takeWhile_neq dropWhile_neq)

lemma match_close_inner1: "match_close (c # cs @ '')'') = None"
  by (cases cs) (auto simp: match_close_def at_end_def)

lemma match_close_inner2: "match_close (c # cs @ '');'') = None"
proof (cases cs)
  case Nil
  then show ?thesis by (auto simp: match_close_def at_end_def)
next
  case (Cons d ds)
  then show ?thesis by (cases ds) (auto simp: match_close_def at_end_def)
qed

lemma sub_close_paren: "sub_close (j @ '')'') = j"
proof (induction j)
  case Nil
  show ?case by (simp add: match_close_def at_end_def)
next
  case (Cons c cs)
  then show ?case using match_close_inner1 [of c cs] by simp
qed

lemma sub_close_paren_semi: "sub_close (j @ '');'') = j"
proof (induction j)
  case Nil
  show ?case by (simp add: match_close_def at_end_def)
next
  case (Cons c cs)
  then show ?case using match_close_inner2 [of c cs] by simp
qed

lemma jsonp_unwrap_payload:
  assumes "ident \<noteq> []" and "CHR ''('' \<notin> set ident"
  shows "jsonp_unwrap (ident @ ''('' @ j @ '')'') = j"
    and "jsonp_unwrap (ident @ ''('' @ j @ '');'') = j"
  using assms match_open_ident [of ident "j @ '')''"] match_open_ident [of ident "j @ '');''"]
  by (simp_all add: jsonp_unwrap_def sub_close_paren sub_close_paren_semi)













text \<open>
  Claim C6. For every answer of status 200 whose text is \<^verbatim>\<open>identifier(<json>)\<close> or
  \<^verbatim>\<open>identifier(<json>);\<close>, with an identifier that is not empty and holds no opening
  parenthesis, the unwrap step leaves exactly \<^verbatim>\<open><json>\<close>, and that is the text
  \<^verbatim>\<open>fetch_space\<close> hands to the JSON parser.
\<close>

theorem fetch_space_unwraps_payload:
  assumes "ident \<noteq> []" and "CHR ''('' \<notin> set ident"
    and "text = ident @ ''('' @ j @ '')'' \<or> text = ident @ ''('' @ j @ '');''"
    and "net e (length (requests w)) space_url = Response 200 text"
  shows "jsonp_unwrap text = j
    \<and> fetch_space e space_url w
        = (case json_loads e j of
             None \<Rightarrow> Inl (RuntimeError SpaceJsonParse)
           | Some data \<Rightarrow> Inr data,
           w\<lparr>requests := requests w @ [space_url]\<rparr>)"
proof -
  have u: "jsonp_unwrap text = j"
    using assms(1-3) jsonp_unwrap_payload by blast
  show ?thesis
    using u assms(4)
    by (simp add: fetch_space_def requests_get_def split: option.splits)
qed

theorem fetch_space_unwraps_payload_witness:
  \<open>jsonp_unwrap ''jsonp1({"space":[{"page":0},{"page":1}]});'' = ''{"space":[{"page":0},{"page":1}]}''
   \<and> fst (fetch_space (example_env [Response 200 ''jsonp1({"space":[{"page":0},{"page":1}]});''])
        ''https://x/y/space.jsonp'' (example_world []))
     = Inr (JObject [(''space'', JArray [JObject [(''page'', JInt 0)], JObject [(''page'', JInt 1)]])])\<close>
proof -
  have a: \<open>''jsonp1'' \<noteq> []\<close> \<open>CHR ''('' \<notin> set ''jsonp1''\<close> by simp_all
  have b: \<open>''jsonp1({"space":[{"page":0},{"page":1}]});''
      = ''jsonp1'' @ ''('' @ ''{"space":[{"page":0},{"page":1}]}'' @ '')''
    \<or> ''jsonp1({"space":[{"page":0},{"page":1}]});''
      = ''jsonp1'' @ ''('' @ ''{"space":[{"page":0},{"page":1}]}'' @ '');''\<close> by simp
  have c: \<open>net (example_env [Response 200 ''jsonp1({"space":[{"page":0},{"page":1}]});''])
      (length (requests (example_world []))) ''https://x/y/space.jsonp''
    = Response 200 ''jsonp1({"space":[{"page":0},{"page":1}]});''\<close>
    by (simp add: example_env_def example_world_def)
  show ?thesis
    using fetch_space_unwraps_payload [OF a b c]
    by (simp add: example_env_def)
qed

subsection \<open>The document assembler\<close>

lemma files_safe_print: "files (safe_print m w) = files w"
  by (simp add: safe_print_def)

lemma requests_safe_print: "requests (safe_print m w) = requests w"
  by (simp add: safe_print_def)


lemma combine_pages_files: "files (snd (combine_pages e ps writer w)) = files w"
  by (induction ps arbitrary: writer w)
    (auto simp: files_safe_print split: option.splits conversion.splits)

lemma combine_pages_requests: "requests (snd (combine_pages e ps writer w)) = requests w"
  by (induction ps arbitrary: writer w)
    (auto simp: requests_safe_print split: option.splits conversion.splits)

lemma combine_pages_writer:
  "fst (combine_pages e ps writer w)
   = writer @ concat (map (\<lambda>p. case files w p of
                                  None \<Rightarrow> []
                                | Some b \<Rightarrow> (case svg_pages e b of
                                              Converted pages \<Rightarrow> pages
                                            | ConversionFailed pages \<Rightarrow> pages)) ps)"
  by (induction ps arbitrary: writer w)
    (auto simp: files_safe_print split: option.splits conversion.splits)

text \<open>
  Claim C9. \<^verbatim>\<open>combine_svgs_to_pdf\<close> returns false and raises nothing when the list of
  page files is empty, when the list is not empty and the engine is \<^verbatim>\<open>none\<close>, and when
  the list is not empty and the engine is neither \<^verbatim>\<open>none\<close> nor \<^verbatim>\<open>cairosvg\<close>; the checks
  are made in this order, and the third prints the unknown-engine message with the name
  of the engine. In all three cases one message is printed and no file is written.
\<close>

theorem combine_svgs_to_pdf_declines:
  "(svg_paths = [] \<longrightarrow>
      combine_svgs_to_pdf e svg_paths pdf_path engine w = (Inr False, safe_print MNoSvgs w))
   \<and> (svg_paths \<noteq> [] \<and> engine = ''none'' \<longrightarrow>
      combine_svgs_to_pdf e svg_paths pdf_path engine w = (Inr False, safe_print MCombineDisabled w))
   \<and> (svg_paths \<noteq> [] \<and> engine \<noteq> ''none'' \<and> engine \<noteq> ''cairosvg'' \<longrightarrow>
      combine_svgs_to_pdf e svg_paths pdf_path engine w
        = (Inr False, safe_print (MUnknownEngine engine) w))
   \<and> (svg_paths = [] \<or> engine = ''none'' \<or> engine \<noteq> ''cairosvg'' \<longrightarrow>
      fst (combine_svgs_to_pdf e svg_paths pdf_path engine w) = Inr False
      \<and> files (snd (combine_svgs_to_pdf e svg_paths pdf_path engine w)) = files w
      \<and> length (printed (snd (combine_svgs_to_pdf e svg_paths pdf_path engine w)))
          = Suc (length (printed w)))"
  by (auto simp: combine_svgs_to_pdf_def safe_print_def)

theorem combine_svgs_to_pdf_declines_witness:
  "combine_svgs_to_pdf (example_env []) [] ''out/a.pdf'' ''cairosvg'' (example_world [(''out/p.svg'', ''<svg/>'')])
     = (Inr False, safe_print MNoSvgs (example_world [(''out/p.svg'', ''<svg/>'')]))
   \<and> combine_svgs_to_pdf (example_env []) [''out/p.svg''] ''out/a.pdf'' ''none''
        (example_world [(''out/p.svg'', ''<svg/>'')])
     = (Inr False, safe_print MCombineDisabled (example_world [(''out/p.svg'', ''<svg/>'')]))
   \<and> combine_svgs_to_pdf (example_env []) [''out/p.svg''] ''out/a.pdf'' ''inkscape''
        (example_world [(''out/p.svg'', ''<svg/>'')])
     = (Inr False, safe_print (MUnknownEngine ''inkscape'') (example_world [(''out/p.svg'', ''<svg/>'')]))
   \<and> files (snd (combine_svgs_to_pdf (example_env []) [''out/p.svg''] ''out/a.pdf'' ''inkscape''
        (example_world [(''out/p.svg'', ''<svg/>'')])))
     = files (example_world [(''out/p.svg'', ''<svg/>'')])"
  using
    combine_svgs_to_pdf_declines [of "[]" "example_env []" "''out/a.pdf''" "''cairosvg''"
      "example_world [(''out/p.svg'', ''<svg/>'')]"]
    combine_svgs_to_pdf_declines [of "[''out/p.svg'']" "example_env []" "''out/a.pdf''" "''none''"
      "example_world [(''out/p.svg'', ''<svg/>'')]"]
    combine_svgs_to_pdf_declines [of "[''out/p.svg'']" "example_env []" "''out/a.pdf''" "''inkscape''"
      "example_world [(''out/p.svg'', ''<svg/>'')]"]
  by (simp add: files_safe_print)

text \<open>
  Claim C10. With a list of page files that is not empty, the engine \<^verbatim>\<open>cairosvg\<close> and
  importable libraries, \<^verbatim>\<open>combine_svgs_to_pdf\<close> returns true and writes the output
  document, made of the pages of the conversions in the order of the list. When every
  page is missing or fails to convert before it adds a page, the document written has
  no page.
\<close>

theorem combine_svgs_to_pdf_always_writes:
  "svg_paths \<noteq> [] \<and> importable e \<longrightarrow>
     fst (combine_svgs_to_pdf e svg_paths pdf_path ''cairosvg'' w) = Inr True
     \<and> files (snd (combine_svgs_to_pdf e svg_paths pdf_path ''cairosvg'' w)) pdf_path
         = Some (pdf_bytes e
             (concat (map (\<lambda>p. case files w p of
                                  None \<Rightarrow> []
                                | Some b \<Rightarrow> (case svg_pages e b of
                                              Converted pages \<Rightarrow> pages
                                            | ConversionFailed pages \<Rightarrow> pages)) svg_paths)))
     \<and> ((\<forall>p \<in> set svg_paths. case files w p of
                                 None \<Rightarrow> True
                               | Some b \<Rightarrow> svg_pages e b = ConversionFailed []) \<longrightarrow>
          files (snd (combine_svgs_to_pdf e svg_paths pdf_path ''cairosvg'' w)) pdf_path
            = Some (pdf_bytes e []))"
proof -
  have z: "concat (map (\<lambda>p. case files w p of
                                  None \<Rightarrow> []
                                | Some b \<Rightarrow> (case svg_pages e b of
                                              Converted pages \<Rightarrow> pages
                                            | ConversionFailed pages \<Rightarrow> pages)) svg_paths) = []"
    if "\<forall>p \<in> set svg_paths. case files w p of
                                 None \<Rightarrow> True
                               | Some b \<Rightarrow> svg_pages e b = ConversionFailed []"
    using that by (induction svg_paths) (auto split: option.splits)
  have f: "files (snd (combine_svgs_to_pdf e svg_paths pdf_path ''cairosvg'' w)) pdf_path
         = Some (pdf_bytes e (fst (combine_pages e svg_paths [] w)))"
    and r: "fst (combine_svgs_to_pdf e svg_paths pdf_path ''cairosvg'' w) = Inr True"
    if "svg_paths \<noteq> []" "importable e"
    using that
    by (simp_all add: combine_svgs_to_pdf_def safe_print_def write_file_def split: prod.splits)
  show ?thesis
  proof (intro impI)
    assume h: "svg_paths \<noteq> [] \<and> importable e"
    have 1: "fst (combine_svgs_to_pdf e svg_paths pdf_path ''cairosvg'' w) = Inr True"
      using r h by blast
    have 2: "files (snd (combine_svgs_to_pdf e svg_paths pdf_path ''cairosvg'' w)) pdf_path
         = Some (pdf_bytes e
             (concat (map (\<lambda>p. case files w p of
                                  None \<Rightarrow> []
                                | Some b \<Rightarrow> (case svg_pages e b of
                                              Converted pages \<Rightarrow> pages
                                            | ConversionFailed pages \<Rightarrow> pages)) svg_paths)))"
      using f h by (simp add: combine_pages_writer)
    have 3: "files (snd (combine_svgs_to_pdf e svg_paths pdf_path ''cairosvg'' w)) pdf_path
            = Some (pdf_bytes e [])"
      if a: "\<forall>p \<in> set svg_paths. case files w p of
                                 None \<Rightarrow> True
                               | Some b \<Rightarrow> svg_pages e b = ConversionFailed []"
      unfolding 2 z [OF a] by (rule refl)
    show "fst (combine_svgs_to_pdf e svg_paths pdf_path ''cairosvg'' w) = Inr True
     \<and> files (snd (combine_svgs_to_pdf e svg_paths pdf_path ''cairosvg'' w)) pdf_path
         = Some (pdf_bytes e
             (concat (map (\<lambda>p. case files w p of
                                  None \<Rightarrow> []
                                | Some b \<Rightarrow> (case svg_pages e b of
                                              Converted pages \<Rightarrow> pages
                                            | ConversionFailed pages \<Rightarrow> pages)) svg_paths)))
     \<and> ((\<forall>p \<in> set svg_paths. case files w p of
                                 None \<Rightarrow> True
                               | Some b \<Rightarrow> svg_pages e b = ConversionFailed []) \<longrightarrow>
          files (snd (combine_svgs_to_pdf e svg_paths pdf_path ''cairosvg'' w)) pdf_path
            = Some (pdf_bytes e []))"
      using 1 2 3 by blast
  qed
qed

theorem combine_svgs_to_pdf_always_writes_witness:
  "fst (combine_svgs_to_pdf (example_env []) [''out/p1.svg'', ''out/p2.svg''] ''out/a.pdf'' ''cairosvg''
          (example_world [(''out/p1.svg'', ''broken'')])) = Inr True
   \<and> files (snd (combine_svgs_to_pdf (example_env []) [''out/p1.svg'', ''out/p2.svg''] ''out/a.pdf''
          ''cairosvg'' (example_world [(''out/p1.svg'', ''broken'')]))) ''out/a.pdf'' = Some []"
proof -
  have a: "[''out/p1.svg'', ''out/p2.svg''] \<noteq> [] \<and> importable (example_env [])"
    by (simp add: example_env_def)
  have b: "\<forall>p \<in> set [''out/p1.svg'', ''out/p2.svg''].
      case files (example_world [(''out/p1.svg'', ''broken'')]) p of
        None \<Rightarrow> True
      | Some b \<Rightarrow> svg_pages (example_env []) b = ConversionFailed []"
    by (simp add: example_env_def example_world_def)
  have c: "pdf_bytes (example_env []) [] = []" by (simp add: example_env_def)
  show ?thesis
    using a b c
      combine_svgs_to_pdf_always_writes [of "[''out/p1.svg'', ''out/p2.svg'']" "example_env []"
        "''out/a.pdf''" "example_world [(''out/p1.svg'', ''broken'')]"]
    by (simp add: example_env_def example_world_def)
qed

subsection \<open>The asset downloader\<close>





lemma upto_nonneg: "\<forall>a \<in> set [0..r]. (0::int) \<le> a"
  by simp

lemma length_upto_0: "length [0..r] = nat (r + 1)"
  by simp


lemma http_get_loop_requests:
  "\<exists>m \<le> length as. requests (snd (http_get_loop e u r t as w)) = requests w @ replicate m u"
proof (induction as arbitrary: w)
  case Nil
  show ?case by simp
next
  case (Cons a as)
  let ?w1 = "w\<lparr>requests := requests w @ [u]\<rparr>"
  have one: "requests w @ [u] = requests w @ replicate (Suc 0) u" by simp
  have more: "\<exists>m \<le> length (a # as).
      requests (snd (http_get_loop e u r t as w2)) = requests w @ replicate m u"
    if "requests w2 = requests w @ [u]" for w2
  proof -
    obtain m where "m \<le> length as"
      "requests (snd (http_get_loop e u r t as w2)) = requests w2 @ replicate m u"
      using Cons.IH [of w2] by blast
    then show ?thesis
      using that by (intro exI [of _ "Suc m"]) (simp add: replicate_app_Cons_same)
  qed
  have stop: "\<exists>m \<le> length (a # as). requests w2 = requests w @ replicate m u"
    if "requests w2 = requests w @ [u]" for w2
    using that by (intro exI [of _ "Suc 0"]) simp
  have bo: "requests (snd (backoff a r ?w1)) = requests w @ [u]"
    by (simp add: backoff_def py_sleep_def)
  have sl: "requests (snd (py_sleep t ?w1)) = requests w @ [u]"
    by (simp add: py_sleep_def)
  show ?case
    using more [of "snd (backoff a r ?w1)"] more [of ?w1] stop [of ?w1]
      stop [of "snd (py_sleep t ?w1)"] stop [of "snd (backoff a r ?w1)"] bo sl
    by (auto simp: requests_get_def split: http_result.splits prod.splits sum.splits)
qed

lemma http_get_requests:
  "\<exists>m \<le> nat (r + 1). requests (snd (http_get e u hs r t w)) = requests w @ replicate m u"
  using http_get_loop_requests [of "[0..r]" e u r t w]
  unfolding http_get_def length_upto_0 .

lemma file_nonempty_safe_print: "file_nonempty (safe_print m w) p = file_nonempty w p"
  by (simp add: file_nonempty_def safe_print_def)



lemma requests_write_file: "requests (write_file q d w) = requests w"
  by (simp add: write_file_def)




lemma download_pages_all_present:
  "\<forall>idx \<in> set idxs. file_nonempty w (page_file out_dir stem idx) \<Longrightarrow>
   download_pages e options base out_dir stem idxs acc w
     = (Inr (acc @ map (page_file out_dir stem) idxs),
        w\<lparr>printed := printed w
             @ map (\<lambda>i. MSkipExisting (path_name (page_file out_dir stem i))) idxs\<rparr>)"
proof (induction idxs arbitrary: acc w)
  case Nil
  show ?case by simp
next
  case (Cons idx rest)
  let ?w1 = "safe_print (MSkipExisting (path_name (page_file out_dir stem idx))) w"
  have "\<forall>i \<in> set rest. file_nonempty ?w1 (page_file out_dir stem i)"
    using Cons.prems by (simp add: file_nonempty_safe_print)
  from Cons.IH [OF this, of "acc @ [page_file out_dir stem idx]"] Cons.prems
  show ?case by (simp add: safe_print_def Let_def)
qed


lemma download_aux_requests:
  "\<exists>m \<le> nat (opt_retries options + 1).
     requests (snd (download_aux e options base aux_url aux_out saved unavailable w))
       = requests w @ replicate m aux_url"
proof -
  let ?hs = "[(''User-Agent'', USER_AGENT), (''Referer'', base)]"
  let ?g = "http_get e aux_url ?hs (opt_retries options) (opt_throttle_ms options) w"
  obtain m where m: "m \<le> nat (opt_retries options + 1)"
    "requests (snd ?g) = requests w @ replicate m aux_url"
    using http_get_requests [of "opt_retries options" e aux_url ?hs "opt_throttle_ms options" w]
    by blast
  obtain r w1 where g: "?g = (r, w1)" by (cases ?g)
  have "requests (snd (download_aux e options base aux_url aux_out saved unavailable w))
       = requests w1"
    using g by (cases r)
      (simp_all add: download_aux_def requests_safe_print requests_write_file)
  then show ?thesis using m g by auto
qed




lemma download_assets_present:
  assumes "\<forall>idx \<in> set idxs. file_nonempty w (page_file out_dir stem idx)"
  shows "\<exists>newreq. requests (snd (download_assets e options base out_dir total_pages idxs stem w))
        = requests w @ newreq
      \<and> set newreq \<subseteq> {base @ ''score.mxl'', base @ ''score.mid''}"
    and "''mxl'' \<notin> set (opt_formats options) \<and> ''mid'' \<notin> set (opt_formats options)
         \<and> ''midi'' \<notin> set (opt_formats options) \<longrightarrow>
         requests (snd (download_assets e options base out_dir total_pages idxs stem w)) = requests w
         \<and> fst (download_assets e options base out_dir total_pages idxs stem w)
            = Inr (if ''svg'' \<in> set (opt_formats options) \<and> 0 < total_pages
                   then map (page_file out_dir stem) idxs else [], None, None)"
proof -
  let ?svg = "''svg'' \<in> set (opt_formats options) \<and> 0 < total_pages"
  let ?mxl = "''mxl'' \<in> set (opt_formats options)"
  let ?mid = "''mid'' \<in> set (opt_formats options) \<or> ''midi'' \<in> set (opt_formats options)"
  let ?A = "if ?svg then download_pages e options base out_dir stem idxs []
                       (safe_print (MDownloading (length idxs)) w)
            else (Inr [], safe_print MSkippingSvg w)"
  let ?paths = "if ?svg then map (page_file out_dir stem) idxs else []"
  have pres: "\<forall>idx \<in> set idxs.
      file_nonempty (safe_print (MDownloading (length idxs)) w) (page_file out_dir stem idx)"
    using assms by (simp add: file_nonempty_safe_print)
  obtain w1 where a: "?A = (Inr ?paths, w1)" and rq1: "requests w1 = requests w"
  proof (cases ?svg)
    case True
    show ?thesis
      using True download_pages_all_present [OF pres, of e options base "[]"]
      by (intro that [of "(safe_print (MDownloading (length idxs)) w)\<lparr>printed :=
            printed (safe_print (MDownloading (length idxs)) w)
            @ map (\<lambda>i. MSkipExisting (path_name (page_file out_dir stem i))) idxs\<rparr>"])
        (simp_all add: requests_safe_print)
  next
    case False
    have "?A = (Inr [], safe_print MSkippingSvg w)" using False by (rule if_not_P)
    moreover have "?paths = []" using False by (rule if_not_P)
    ultimately show ?thesis
      using that [of "safe_print MSkippingSvg w"] by (simp add: requests_safe_print)
  qed
  let ?B = "if ?mxl then download_aux e options base (base @ ''score.mxl'')
                       (path_join out_dir (stem @ ''.mxl'')) MSavedMxl MMxlUnavailable w1
            else (Inr None, w1)"
  obtain r2 w2 where b: "?B = (r2, w2)" by (cases ?B)
  obtain m2 where rq2: "requests w2 = requests w1 @ replicate m2 (base @ ''score.mxl'')"
  proof (cases ?mxl)
    case True
    then show ?thesis
      using b that download_aux_requests [of options e base "base @ ''score.mxl''"
          "path_join out_dir (stem @ ''.mxl'')" MSavedMxl MMxlUnavailable w1]
      by auto
  next
    case False
    then show ?thesis using b that [of 0] by simp
  qed
  let ?C = "if ?mid then download_aux e options base (base @ ''score.mid'')
                       (path_join out_dir (stem @ ''.mid'')) MSavedMidi MMidiUnavailable w2
            else (Inr None, w2)"
  obtain r3 w3 where c: "?C = (r3, w3)" by (cases ?C)
  obtain m3 where rq3: "requests w3 = requests w2 @ replicate m3 (base @ ''score.mid'')"
  proof (cases ?mid)
    case True
    then show ?thesis
      using c that download_aux_requests [of options e base "base @ ''score.mid''"
          "path_join out_dir (stem @ ''.mid'')" MSavedMidi MMidiUnavailable w2]
      by auto
  next
    case False
    then show ?thesis using c that [of 0] by simp
  qed
  have da: "download_assets e options base out_dir total_pages idxs stem w
      = (case r2 of
           Inl x \<Rightarrow> (Inl x, w2)
         | Inr mxl_path \<Rightarrow>
             (case r3 of
                Inl x \<Rightarrow> (Inl x, w3)
              | Inr mid_path \<Rightarrow> (Inr (?paths, mxl_path, mid_path), w3)))"
    unfolding download_assets_def Let_def a prod.case sum.case b c by (rule refl)
  show "\<exists>newreq. requests (snd (download_assets e options base out_dir total_pages idxs stem w))
        = requests w @ newreq
      \<and> set newreq \<subseteq> {base @ ''score.mxl'', base @ ''score.mid''}"
  proof (cases r2)
    case (Inl x)
    then show ?thesis
      using da rq1 rq2 by (intro exI [of _ "replicate m2 (base @ ''score.mxl'')"]) auto
  next
    case (Inr mxl_path)
    then show ?thesis
      using da rq1 rq2 rq3
      by (intro exI [of _ "replicate m2 (base @ ''score.mxl'') @ replicate m3 (base @ ''score.mid'')"])
        (auto split: sum.splits)
  qed
  show "''mxl'' \<notin> set (opt_formats options) \<and> ''mid'' \<notin> set (opt_formats options)
         \<and> ''midi'' \<notin> set (opt_formats options) \<longrightarrow>
         requests (snd (download_assets e options base out_dir total_pages idxs stem w)) = requests w
         \<and> fst (download_assets e options base out_dir total_pages idxs stem w)
            = Inr (?paths, None, None)"
  proof
    assume n: "''mxl'' \<notin> set (opt_formats options) \<and> ''mid'' \<notin> set (opt_formats options)
         \<and> ''midi'' \<notin> set (opt_formats options)"
    then have "r2 = Inr None" "w2 = w1" "r3 = Inr None" "w3 = w2" using b c by auto
    then show "requests (snd (download_assets e options base out_dir total_pages idxs stem w))
          = requests w
         \<and> fst (download_assets e options base out_dir total_pages idxs stem w)
            = Inr (?paths, None, None)"
      using da rq1 by simp
  qed
qed

text \<open>
  Claim C1, as amended. When a file that is not empty exists at the output path of every
  requested page, the loop over the pages of \<^verbatim>\<open>download_assets\<close> skips every page and
  issues no request. The whole call then requests nothing but the addresses of the
  auxiliary assets, \<^verbatim>\<open>score.mxl\<close> and \<^verbatim>\<open>score.mid\<close>, which have no presence check; it
  issues no request at all when the format set holds none of \<^verbatim>\<open>mxl\<close>, \<^verbatim>\<open>mid\<close> and
  \<^verbatim>\<open>midi\<close>.
\<close>

theorem download_assets_rerun_skips_pages:
  assumes "\<forall>idx \<in> set page_indices. file_nonempty w (page_file out_dir song_stem idx)"
  shows "download_pages e options base out_dir song_stem page_indices [] w
       = (Inr (map (page_file out_dir song_stem) page_indices),
          w\<lparr>printed := printed w
               @ map (\<lambda>i. MSkipExisting (path_name (page_file out_dir song_stem i))) page_indices\<rparr>)
    \<and> (\<exists>newreq.
         requests (snd (download_assets e options base out_dir total_pages page_indices song_stem w))
           = requests w @ newreq
         \<and> set newreq \<subseteq> {base @ ''score.mxl'', base @ ''score.mid''})
    \<and> (''mxl'' \<notin> set (opt_formats options) \<and> ''mid'' \<notin> set (opt_formats options)
         \<and> ''midi'' \<notin> set (opt_formats options) \<longrightarrow>
         requests (snd (download_assets e options base out_dir total_pages page_indices song_stem w))
           = requests w
         \<and> fst (download_assets e options base out_dir total_pages page_indices song_stem w)
            = Inr (if ''svg'' \<in> set (opt_formats options) \<and> 0 < total_pages
                   then map (page_file out_dir song_stem) page_indices else [], None, None))"
proof -
  have "download_pages e options base out_dir song_stem page_indices [] w
       = (Inr (map (page_file out_dir song_stem) page_indices),
          w\<lparr>printed := printed w
               @ map (\<lambda>i. MSkipExisting (path_name (page_file out_dir song_stem i))) page_indices\<rparr>)"
    using download_pages_all_present [OF assms, where e = e and options = options and base = base
        and acc = "[]"] by simp
  then show ?thesis
    using download_assets_present [OF assms, where e = e and options = options and base = base
        and total_pages = total_pages] by blast
qed

theorem download_assets_rerun_skips_pages_witness:
  "file_nonempty (example_world [(''out/Song - page - 01.svg'', ''<svg/>''),
        (''out/Song - page - 03.svg'', ''<svg/>'')]) (page_file ''out'' ''Song'' 0)
   \<and> file_nonempty (example_world [(''out/Song - page - 01.svg'', ''<svg/>''),
        (''out/Song - page - 03.svg'', ''<svg/>'')]) (page_file ''out'' ''Song'' 2)
   \<and> requests (snd (download_assets (example_env [Response 200 ''late'']) example_options
        ''https://x/y/'' ''out'' 3 [0, 2] ''Song''
        (example_world [(''out/Song - page - 01.svg'', ''<svg/>''),
           (''out/Song - page - 03.svg'', ''<svg/>'')]))) = []
   \<and> fst (download_assets (example_env [Response 200 ''late'']) example_options
        ''https://x/y/'' ''out'' 3 [0, 2] ''Song''
        (example_world [(''out/Song - page - 01.svg'', ''<svg/>''),
           (''out/Song - page - 03.svg'', ''<svg/>'')]))
      = Inr ([''out/Song - page - 01.svg'', ''out/Song - page - 03.svg''], None, None)"
proof -
  let ?w = "example_world [(''out/Song - page - 01.svg'', ''<svg/>''),
        (''out/Song - page - 03.svg'', ''<svg/>'')]"
  have p: "page_file ''out'' ''Song'' 0 = ''out/Song - page - 01.svg''"
    "page_file ''out'' ''Song'' 2 = ''out/Song - page - 03.svg''"
    by code_simp+
  have f: "file_nonempty ?w ''out/Song - page - 01.svg''"
    "file_nonempty ?w ''out/Song - page - 03.svg''"
    by (simp_all add: file_nonempty_def example_world_def)
  then have a: "\<forall>idx \<in> set [0, 2]. file_nonempty ?w (page_file ''out'' ''Song'' idx)"
    using p by simp
  have o: "''mxl'' \<notin> set (opt_formats example_options) \<and> ''mid'' \<notin> set (opt_formats example_options)
         \<and> ''midi'' \<notin> set (opt_formats example_options)"
    "''svg'' \<in> set (opt_formats example_options)"
    by (simp_all add: example_options_def)
  have r: "requests ?w = []" by (simp add: example_world_def)
  show ?thesis
    using download_assets_rerun_skips_pages [OF a, where e = "example_env [Response 200 ''late'']"
        and options = example_options and base = "''https://x/y/''" and total_pages = 3] o r p f
    by simp
qed

text \<open>
  The claim C1 as first stated fails for the format set \<^verbatim>\<open>svg, mxl\<close>: the page is on
  disk, and the run still asks for \<^verbatim>\<open>score.mxl\<close>, three times with two retries.
\<close>

theorem download_assets_rerun_counterexample:
  "file_nonempty (example_world [(''out/Song - page - 01.svg'', ''<svg/>'')])
       (page_file ''out'' ''Song'' 0)
   \<and> requests (snd (download_assets (example_env [])
        (example_options\<lparr>opt_formats := [''svg'', ''mxl'']\<rparr>)
        ''https://x/y/'' ''out'' 1 [0] ''Song''
        (example_world [(''out/Song - page - 01.svg'', ''<svg/>'')])))
     = [''https://x/y/score.mxl'', ''https://x/y/score.mxl'', ''https://x/y/score.mxl'']"
  by code_simp





subsection \<open>The orchestrator\<close>



















end
